theory Spec2Isabelle
  imports Main
begin

section \<open>YearMonth of js-joda: a shallow embedding of src/YearMonth.js\<close>

text \<open>
  A \<open>YearMonth\<close> is an immutable pair of the private fields \<open>_year\<close> and \<open>_month\<close>.
  JavaScript numbers are modelled as mathematical integers. That is exact as long as the
  values stay within \<open>2 ^ 53\<close> in magnitude. On a value inside its ranges a larger sum can
  only come from an amount near the bounds of the safe integers; JavaScript rounds such a sum,
  and the sum goes straight into the check against the YEAR range, which the rounded number
  fails just as the exact one does.

  Exceptions are values: a method returns \<open>Inl e\<close> where the source throws \<open>e\<close> and
  \<open>Inr v\<close> where it returns \<open>v\<close>. Exception messages are left out, except for the one
  message that \<open>YearMonth.from\<close> builds itself.
\<close>

subsection \<open>Exceptions and results\<close>

datatype error =
    NullPointerException
  | IllegalArgumentException
  | ArithmeticException
  | DateTimeException
  | UnsupportedTemporalTypeException
  | DateTimeException_message string

definition andThen :: "error + 'a \<Rightarrow> ('a \<Rightarrow> error + 'b) \<Rightarrow> error + 'b" where
  "andThen r f = (case r of Inl e \<Rightarrow> Inl e | Inr v \<Rightarrow> f v)"

subsection \<open>Collaborators outside YearMonth.js\<close>

text \<open>Modelled from the spec: \<open>MathUtil.MAX_SAFE_INTEGER\<close> and \<open>MathUtil.MIN_SAFE_INTEGER\<close>
  (MathUtil.js is not among the sources) are the bounds of the safe integer domain of a
  JavaScript number, \<open>2 ^ 53 - 1\<close> and its negation.\<close>

definition MAX_SAFE_INTEGER :: int where
  "MAX_SAFE_INTEGER = 9007199254740991"

definition MIN_SAFE_INTEGER :: int where
  "MIN_SAFE_INTEGER = - 9007199254740991"

definition isSafeInteger :: "int \<Rightarrow> bool" where
  "isSafeInteger x = (MIN_SAFE_INTEGER \<le> x \<and> x \<le> MAX_SAFE_INTEGER)"

text \<open>Modelled from the spec: \<open>MathUtil.safeAdd\<close> and \<open>MathUtil.safeMultiply\<close> are the
  overflow-checked addition and multiplication: they fail rather than leave the safe integer
  domain.\<close>

definition safeAdd :: "int \<Rightarrow> int \<Rightarrow> error + int" where
  "safeAdd x y = (if isSafeInteger (x + y) then Inr (x + y) else Inl ArithmeticException)"

definition safeMultiply :: "int \<Rightarrow> int \<Rightarrow> error + int" where
  "safeMultiply x y = (if isSafeInteger (x * y) then Inr (x * y) else Inl ArithmeticException)"

text \<open>Modelled from the spec: \<open>MathUtil.floorDiv\<close> and \<open>MathUtil.floorMod\<close> are floor
  division and floor modulo (not the truncating ones); on \<open>int\<close> these are \<open>div\<close> and
  \<open>mod\<close>.\<close>

definition floorDiv :: "int \<Rightarrow> int \<Rightarrow> int" where
  "floorDiv x y = x div y"

definition floorMod :: "int \<Rightarrow> int \<Rightarrow> int" where
  "floorMod x y = x mod y"

text \<open>Modelled from the spec: \<open>Year.MIN_VALUE\<close> and \<open>Year.MAX_VALUE\<close> (Year.js is not among
  the sources) are the library-wide bounds of the year, \<open>-999,999,999\<close> and
  \<open>999,999,999\<close>.\<close>

definition MIN_YEAR :: int where
  "MIN_YEAR = - 999999999"

definition MAX_YEAR :: int where
  "MAX_YEAR = 999999999"

text \<open>A \<open>ValueRange\<close> is an inclusive pair of bounds; \<open>ValueRange.of(min, max)\<close> builds
  one.\<close>

record ValueRange =
  minimum :: int
  maximum :: int

definition ValueRange_of :: "int \<Rightarrow> int \<Rightarrow> ValueRange" where
  "ValueRange_of lo hi = \<lparr>minimum = lo, maximum = hi\<rparr>"

definition isValidValue :: "ValueRange \<Rightarrow> int \<Rightarrow> bool" where
  "isValidValue r v = (minimum r \<le> v \<and> v \<le> maximum r)"

text \<open>The constants of the enumeration \<open>ChronoField\<close>: the five that YearMonth.js names, and
  any other constant of the enumeration, which stands here with its declared range.\<close>

datatype chrono_field =
    MONTH_OF_YEAR
  | PROLEPTIC_MONTH
  | YEAR_OF_ERA
  | YEAR
  | ERA
  | OTHER_CHRONO_FIELD ValueRange

text \<open>Modelled from the spec: the declared range of a \<open>ChronoField\<close> (ChronoField.js is not
  among the sources). YEAR runs from MIN_YEAR to MAX_YEAR and MONTH_OF_YEAR from 1 to 12. The
  other three are the hulls of the values the spec gives them: the era is 0 or 1, the
  year-of-era is at least 1 and at most MAX_YEAR + 1, the proleptic month is
  \<open>year * 12 + (month - 1)\<close>.\<close>

fun field_range :: "chrono_field \<Rightarrow> ValueRange" where
  "field_range MONTH_OF_YEAR = ValueRange_of 1 12"
| "field_range PROLEPTIC_MONTH = ValueRange_of (MIN_YEAR * 12) (MAX_YEAR * 12 + 11)"
| "field_range YEAR_OF_ERA = ValueRange_of 1 (MAX_YEAR + 1)"
| "field_range YEAR = ValueRange_of MIN_YEAR MAX_YEAR"
| "field_range ERA = ValueRange_of 0 1"
| "field_range (OTHER_CHRONO_FIELD r) = r"

text \<open>Modelled from the spec: \<open>ChronoField.checkValidValue\<close> is the field-range checker, which
  fails with \<open>DateTimeException\<close> on a value outside the declared range of the field.
  \<open>ChronoField.checkValidIntValue\<close> is the same check against the range and returns the
  value; YearMonth.js documents its failure as \<open>DateTimeException\<close> too
  (\<open>@throws DateTimeException if the result exceeds the supported range\<close>).\<close>

definition checkValidValue :: "chrono_field \<Rightarrow> int \<Rightarrow> error + int" where
  "checkValidValue f v = (if isValidValue (field_range f) v then Inr v else Inl DateTimeException)"

definition checkValidIntValue :: "chrono_field \<Rightarrow> int \<Rightarrow> error + int" where
  "checkValidIntValue f v = (if isValidValue (field_range f) v then Inr v else Inl DateTimeException)"

subsection \<open>The value\<close>

record YearMonth =
  year :: int
  month :: int

text \<open>The invariant of the data model: both fields are inside their ranges. The constructor
  itself checks nothing; the factory \<open>of\<close> and the setters do.\<close>

definition valid_YearMonth :: "YearMonth \<Rightarrow> bool" where
  "valid_YearMonth this =
     (MIN_YEAR \<le> year this \<and> year this \<le> MAX_YEAR \<and> 1 \<le> month this \<and> month this \<le> 12)"

definition monthValue :: "YearMonth \<Rightarrow> int" where
  "monthValue this = month this"

text \<open>\<open>_ofYearMonthNumber(year, month)\<close>. An argument is \<open>None\<close> where the caller passes
  \<open>null\<close> or \<open>undefined\<close>; \<open>requireNonNull\<close> rejects it.\<close>

definition requireNonNull :: "'a option \<Rightarrow> error + 'a" where
  "requireNonNull v = (case v of None \<Rightarrow> Inl NullPointerException | Some x \<Rightarrow> Inr x)"

definition ofYearMonthNumber :: "int option \<Rightarrow> int option \<Rightarrow> error + YearMonth" where
  "ofYearMonthNumber y m =
     andThen (requireNonNull y) (\<lambda>y'.
     andThen (requireNonNull m) (\<lambda>m'.
     andThen (checkValidValue YEAR y') (\<lambda>_.
     andThen (checkValidValue MONTH_OF_YEAR m') (\<lambda>_.
       Inr \<lparr>year = y', month = m'\<rparr>))))"

definition YearMonth_of :: "int \<Rightarrow> int \<Rightarrow> error + YearMonth" where
  "YearMonth_of y m = ofYearMonthNumber (Some y) (Some m)"

text \<open>\<open>_withYearMonth(newYear, newMonth)\<close> returns \<open>this\<close> when nothing changes and a new
  object otherwise.\<close>

definition withYearMonth :: "YearMonth \<Rightarrow> int \<Rightarrow> int \<Rightarrow> YearMonth" where
  "withYearMonth this newYear newMonth =
     (if year this = newYear \<and> month this = newMonth then this
      else \<lparr>year = newYear, month = newMonth\<rparr>)"

definition withYear :: "YearMonth \<Rightarrow> int \<Rightarrow> error + YearMonth" where
  "withYear this y =
     andThen (checkValidValue YEAR y) (\<lambda>_. Inr (withYearMonth this y (month this)))"

definition withMonth :: "YearMonth \<Rightarrow> int \<Rightarrow> error + YearMonth" where
  "withMonth this m =
     andThen (checkValidValue MONTH_OF_YEAR m) (\<lambda>_. Inr (withYearMonth this (year this) m))"

subsection \<open>Arithmetic\<close>

definition plusYears :: "YearMonth \<Rightarrow> int \<Rightarrow> error + YearMonth" where
  "plusYears this yearsToAdd =
     (if yearsToAdd = 0 then Inr this
      else andThen (checkValidIntValue YEAR (year this + yearsToAdd)) (\<lambda>newYear.
             Inr (withYearMonth this newYear (month this))))"

definition plusMonths :: "YearMonth \<Rightarrow> int \<Rightarrow> error + YearMonth" where
  "plusMonths this monthsToAdd =
     (if monthsToAdd = 0 then Inr this
      else
        let monthCount = year this * 12 + (month this - 1);
            calcMonths = monthCount + monthsToAdd
        in andThen (checkValidIntValue YEAR (floorDiv calcMonths 12)) (\<lambda>newYear.
             let newMonth = floorMod calcMonths 12 + 1
             in Inr (withYearMonth this newYear newMonth)))"

text \<open>\<open>minusMonths\<close> passes \<open>Math.MAX_SAFE_INTEGER\<close> to \<open>plusMonths\<close> in its boundary branch.
  The global \<open>Math\<close> has no such property (the constant lives on \<open>Number\<close> and on the
  library's \<open>MathUtil\<close>), so the argument is \<open>undefined\<close>. In \<open>plusMonths(undefined)\<close> the
  test \<open>undefined === 0\<close> is false, \<open>monthCount + undefined\<close> is \<open>NaN\<close>, and \<open>NaN\<close> lies in
  no range, so the YEAR check fails.\<close>

definition plusMonths_undefined :: "YearMonth \<Rightarrow> error + YearMonth" where
  "plusMonths_undefined this = Inl DateTimeException"

definition minusYears :: "YearMonth \<Rightarrow> int \<Rightarrow> error + YearMonth" where
  "minusYears this yearsToSubtract =
     (if yearsToSubtract = MIN_SAFE_INTEGER
      then andThen (plusYears this MIN_SAFE_INTEGER) (\<lambda>r. plusYears r 1)
      else plusYears this (- yearsToSubtract))"

definition minusMonths :: "YearMonth \<Rightarrow> int \<Rightarrow> error + YearMonth" where
  "minusMonths this monthsToSubtract =
     (if monthsToSubtract = MIN_SAFE_INTEGER
      then andThen (plusMonths_undefined this) (\<lambda>r. plusMonths r 1)
      else plusMonths this (- monthsToSubtract))"

subsection \<open>Field and unit tokens\<close>

text \<open>The constants of the enumeration \<open>ChronoUnit\<close>: the six that YearMonth.js names, and any
  other constant of the enumeration. A field or a unit of another class carries the methods
  that YearMonth.js calls on it.\<close>

datatype chrono_unit =
    MONTHS
  | YEARS
  | DECADES
  | CENTURIES
  | MILLENNIA
  | ERAS
  | OTHER_CHRONO_UNIT nat

record foreign_field =
  field_getFrom :: "YearMonth \<Rightarrow> error + int"
  field_adjustInto :: "YearMonth \<Rightarrow> int \<Rightarrow> error + YearMonth"

record foreign_unit =
  unit_addTo :: "YearMonth \<Rightarrow> int \<Rightarrow> error + YearMonth"

datatype TemporalField = ChronoField chrono_field | ForeignField foreign_field

datatype TemporalUnit = ChronoUnit chrono_unit | ForeignUnit foreign_unit

text \<open>What a caller can pass where a field or a unit is expected: \<open>None\<close> is \<open>null\<close>, and an
  object is a field or a unit. The class tests follow the class hierarchy that the imports
  of YearMonth.js name: \<open>ChronoField\<close> is a \<open>TemporalField\<close>, \<open>ChronoUnit\<close> is a
  \<open>TemporalUnit\<close>, and no unit is a field.\<close>

datatype token = FieldToken TemporalField | UnitToken TemporalUnit

fun instanceof_TemporalField :: "token \<Rightarrow> bool" where
  "instanceof_TemporalField (FieldToken _) = True"
| "instanceof_TemporalField (UnitToken _) = False"

fun instanceof_TemporalUnit :: "token \<Rightarrow> bool" where
  "instanceof_TemporalUnit (UnitToken _) = True"
| "instanceof_TemporalUnit (FieldToken _) = False"

fun instanceof_ChronoField :: "token \<Rightarrow> bool" where
  "instanceof_ChronoField (FieldToken (ChronoField _)) = True"
| "instanceof_ChronoField _ = False"

text \<open>Modelled from the spec: \<open>requireInstance\<close> (assert.js is not among the sources), like
  \<open>requireNonNull\<close> above, is a guard on an argument. The spec gives the failure of a guard no
  name of its own; the model names it after the guard.\<close>

definition requireInstance :: "bool \<Rightarrow> error + unit" where
  "requireInstance isInstance = (if isInstance then Inr () else Inl IllegalArgumentException)"

text \<open>The calls \<open>field.getFrom(this)\<close>, \<open>field.adjustInto(this, newValue)\<close> and
  \<open>unit.addTo(this, amountToAdd)\<close> run the method of the receiver. Only a foreign field
  reaches the first two; the last equation of each is never used. \<open>ChronoUnit.addTo\<close> is
  defined in ChronoUnit.js, which is not among the sources: it is a parameter.\<close>

fun getFrom :: "token \<Rightarrow> YearMonth \<Rightarrow> error + int" where
  "getFrom (FieldToken (ForeignField c)) this = field_getFrom c this"
| "getFrom _ this = Inl IllegalArgumentException"

fun adjustInto :: "token \<Rightarrow> YearMonth \<Rightarrow> int \<Rightarrow> error + YearMonth" where
  "adjustInto (FieldToken (ForeignField c)) this v = field_adjustInto c this v"
| "adjustInto _ this v = Inl IllegalArgumentException"

fun addTo ::
  "(chrono_unit \<Rightarrow> YearMonth \<Rightarrow> int \<Rightarrow> error + YearMonth) \<Rightarrow> token \<Rightarrow> YearMonth \<Rightarrow> int
    \<Rightarrow> error + YearMonth" where
  "addTo chronoUnit_addTo (UnitToken (ChronoUnit u)) this n = chronoUnit_addTo u this n"
| "addTo chronoUnit_addTo (UnitToken (ForeignUnit g)) this n = unit_addTo g this n"
| "addTo chronoUnit_addTo (FieldToken _) this n = Inl IllegalArgumentException"

subsection \<open>Value extraction\<close>

definition getProlepticMonth :: "YearMonth \<Rightarrow> error + int" where
  "getProlepticMonth this =
     andThen (safeMultiply (year this) 12) (\<lambda>p. safeAdd p (month this - 1))"

fun getLong_switch :: "YearMonth \<Rightarrow> token \<Rightarrow> error + int" where
  "getLong_switch this (FieldToken (ChronoField MONTH_OF_YEAR)) = Inr (month this)"
| "getLong_switch this (FieldToken (ChronoField PROLEPTIC_MONTH)) = getProlepticMonth this"
| "getLong_switch this (FieldToken (ChronoField YEAR_OF_ERA)) =
     Inr (if year this < 1 then 1 - year this else year this)"
| "getLong_switch this (FieldToken (ChronoField YEAR)) = Inr (year this)"
| "getLong_switch this (FieldToken (ChronoField ERA)) = Inr (if year this < 1 then 0 else 1)"
| "getLong_switch this _ = Inl UnsupportedTemporalTypeException"

definition getLong :: "YearMonth \<Rightarrow> token option \<Rightarrow> error + int" where
  "getLong this field =
     andThen (requireNonNull field) (\<lambda>f.
     andThen (requireInstance (instanceof_TemporalField f)) (\<lambda>_.
       if instanceof_ChronoField f then getLong_switch this f
       else getFrom f this))"

text \<open>\<open>range(field)\<close> answers for YEAR_OF_ERA itself and leaves every other field to
  \<open>super.range\<close>, which is defined in Temporal.js, not among the sources: it is a
  parameter.\<close>

definition range_field ::
  "(YearMonth \<Rightarrow> token option \<Rightarrow> error + ValueRange) \<Rightarrow> YearMonth \<Rightarrow> token option
    \<Rightarrow> error + ValueRange" where
  "range_field super_range this field =
     (if field = Some (FieldToken (ChronoField YEAR_OF_ERA))
      then (if year this \<le> 0 then Inr (ValueRange_of 1 (MAX_YEAR + 1))
            else Inr (ValueRange_of 1 MAX_YEAR))
      else super_range this field)"

subsection \<open>Adjustment\<close>

fun withFieldValue_switch :: "YearMonth \<Rightarrow> token \<Rightarrow> int \<Rightarrow> error + YearMonth" where
  "withFieldValue_switch this (FieldToken (ChronoField MONTH_OF_YEAR)) newValue =
     withMonth this newValue"
| "withFieldValue_switch this (FieldToken (ChronoField PROLEPTIC_MONTH)) newValue =
     andThen (getLong this (Some (FieldToken (ChronoField PROLEPTIC_MONTH)))) (\<lambda>p.
       plusMonths this (newValue - p))"
| "withFieldValue_switch this (FieldToken (ChronoField YEAR_OF_ERA)) newValue =
     withYear this (if year this < 1 then 1 - newValue else newValue)"
| "withFieldValue_switch this (FieldToken (ChronoField YEAR)) newValue =
     withYear this newValue"
| "withFieldValue_switch this (FieldToken (ChronoField ERA)) newValue =
     andThen (getLong this (Some (FieldToken (ChronoField ERA)))) (\<lambda>e.
       if e = newValue then Inr this else withYear this (1 - year this))"
| "withFieldValue_switch this _ newValue = Inl UnsupportedTemporalTypeException"

text \<open>\<open>f.checkValidValue(newValue)\<close> is called on a field that is a \<open>ChronoField\<close>.\<close>

fun token_checkValidValue :: "token \<Rightarrow> int \<Rightarrow> error + int" where
  "token_checkValidValue (FieldToken (ChronoField f)) v = checkValidValue f v"
| "token_checkValidValue _ v = Inl IllegalArgumentException"

definition withFieldValue :: "YearMonth \<Rightarrow> token option \<Rightarrow> int \<Rightarrow> error + YearMonth" where
  "withFieldValue this field newValue =
     andThen (requireNonNull field) (\<lambda>f.
     andThen (requireInstance (instanceof_TemporalField f)) (\<lambda>_.
       if instanceof_ChronoField f
       then andThen (token_checkValidValue f newValue) (\<lambda>_.
              withFieldValue_switch this f newValue)
       else adjustInto f this newValue))"

subsection \<open>Addition and subtraction by unit\<close>

text \<open>\<open>_plusAmountUnit(amountToAdd, unit)\<close>, which \<open>plus\<close> runs when it gets two arguments.
  The guard of the switch is \<open>unit instanceof ChronoField\<close>, as the source has it. In the
  case ERAS, \<open>this.with(ChronoField.ERA, v)\<close> has two arguments, the first a
  \<open>TemporalField\<close>, so \<open>with\<close> runs \<open>_withFieldValue\<close>.\<close>

fun plusAmountUnit_switch :: "YearMonth \<Rightarrow> int \<Rightarrow> token \<Rightarrow> error + YearMonth" where
  "plusAmountUnit_switch this amountToAdd (UnitToken (ChronoUnit MONTHS)) =
     plusMonths this amountToAdd"
| "plusAmountUnit_switch this amountToAdd (UnitToken (ChronoUnit YEARS)) =
     plusYears this amountToAdd"
| "plusAmountUnit_switch this amountToAdd (UnitToken (ChronoUnit DECADES)) =
     andThen (safeMultiply amountToAdd 10) (plusYears this)"
| "plusAmountUnit_switch this amountToAdd (UnitToken (ChronoUnit CENTURIES)) =
     andThen (safeMultiply amountToAdd 100) (plusYears this)"
| "plusAmountUnit_switch this amountToAdd (UnitToken (ChronoUnit MILLENNIA)) =
     andThen (safeMultiply amountToAdd 1000) (plusYears this)"
| "plusAmountUnit_switch this amountToAdd (UnitToken (ChronoUnit ERAS)) =
     andThen (getLong this (Some (FieldToken (ChronoField ERA)))) (\<lambda>e.
     andThen (safeAdd e amountToAdd) (\<lambda>v.
       withFieldValue this (Some (FieldToken (ChronoField ERA))) v))"
| "plusAmountUnit_switch this amountToAdd _ = Inl UnsupportedTemporalTypeException"

definition plusAmountUnit ::
  "(chrono_unit \<Rightarrow> YearMonth \<Rightarrow> int \<Rightarrow> error + YearMonth) \<Rightarrow> YearMonth \<Rightarrow> int \<Rightarrow> token option
    \<Rightarrow> error + YearMonth" where
  "plusAmountUnit chronoUnit_addTo this amountToAdd unit =
     andThen (requireNonNull unit) (\<lambda>u.
     andThen (requireInstance (instanceof_TemporalUnit u)) (\<lambda>_.
       if instanceof_ChronoField u then plusAmountUnit_switch this amountToAdd u
       else addTo chronoUnit_addTo u this amountToAdd))"

definition minusAmountUnit ::
  "(chrono_unit \<Rightarrow> YearMonth \<Rightarrow> int \<Rightarrow> error + YearMonth) \<Rightarrow> YearMonth \<Rightarrow> int \<Rightarrow> token option
    \<Rightarrow> error + YearMonth" where
  "minusAmountUnit chronoUnit_addTo this amountToSubtract unit =
     (if amountToSubtract = MIN_SAFE_INTEGER
      then andThen (plusAmountUnit chronoUnit_addTo this MAX_SAFE_INTEGER unit) (\<lambda>r.
             plusAmountUnit chronoUnit_addTo r 1 unit)
      else plusAmountUnit chronoUnit_addTo this (- amountToSubtract) unit)"

subsection \<open>Objects, conversion and equality\<close>

text \<open>Two methods look at the identity of an object. An object is its address together with
  its content; YearMonth objects and other objects have addresses of their own, and two
  references are identical when they are references to objects of the same class at the same
  address. Another temporal accessor is known by its own \<open>get\<close>, which may throw or return
  \<open>null\<close>, by the string it converts to, and by the name of its constructor (\<open>None\<close> where
  it has no constructor).\<close>

record accessor =
  accessor_get :: "chrono_field \<Rightarrow> error + int option"
  accessor_toString :: string
  accessor_constructor_name :: "string option"

datatype temporal = YearMonthObject nat YearMonth | AccessorObject nat accessor

datatype jsvalue = Null | Undefined | Primitive | Object temporal

text \<open>The result of \<open>from\<close> is the argument itself or a newly constructed YearMonth.\<close>

datatype from_result = Argument temporal | Constructed YearMonth

definition from_message :: "accessor \<Rightarrow> string" where
  "from_message acc =
     ''Unable to obtain YearMonth from TemporalAccessor: '' @ accessor_toString acc @
     '', type '' @ (case accessor_constructor_name acc of Some n \<Rightarrow> n | None \<Rightarrow> [])"

definition YearMonth_from :: "temporal option \<Rightarrow> error + from_result" where
  "YearMonth_from temporal =
     andThen (requireNonNull temporal) (\<lambda>t.
       case t of
         YearMonthObject a v \<Rightarrow> Inr (Argument t)
       | AccessorObject a acc \<Rightarrow>
           (case andThen (accessor_get acc YEAR) (\<lambda>y.
                 andThen (accessor_get acc MONTH_OF_YEAR) (\<lambda>m.
                   ofYearMonthNumber y m)) of
              Inr v \<Rightarrow> Inr (Constructed v)
            | Inl ex \<Rightarrow> Inl (DateTimeException_message (from_message acc))))"

text \<open>\<open>this === obj\<close>, where \<open>this\<close> is the YearMonth object at address \<open>a\<close>.\<close>

definition identical :: "nat \<Rightarrow> jsvalue \<Rightarrow> bool" where
  "identical a obj = (case obj of Object (YearMonthObject b _) \<Rightarrow> a = b | _ \<Rightarrow> False)"

definition equals :: "nat \<Rightarrow> YearMonth \<Rightarrow> jsvalue \<Rightarrow> bool" where
  "equals a this obj =
     (if identical a obj then True
      else (case obj of
              Object (YearMonthObject b other) \<Rightarrow>
                year this = year other \<and> monthValue this = monthValue other
            | _ \<Rightarrow> False))"

section \<open>Properties\<close>

subsection \<open>Helpers\<close>

lemmas guards = andThen_def requireNonNull_def requireInstance_def

lemma withYearMonth_value:
  "withYearMonth this y m = \<lparr>year = y, month = m\<rparr>"
  by (simp add: withYearMonth_def)

lemma YearMonth_of_value:
  "YearMonth_of y m =
     (if MIN_YEAR \<le> y \<and> y \<le> MAX_YEAR \<and> 1 \<le> m \<and> m \<le> 12
      then Inr \<lparr>year = y, month = m\<rparr> else Inl DateTimeException)"
  by (simp add: YearMonth_of_def ofYearMonthNumber_def requireNonNull_def andThen_def
      checkValidValue_def isValidValue_def ValueRange_of_def)

lemma plusYears_value:
  "plusYears this n =
     (if n = 0 then Inr this
      else if MIN_YEAR \<le> year this + n \<and> year this + n \<le> MAX_YEAR
      then Inr \<lparr>year = year this + n, month = month this\<rparr>
      else Inl DateTimeException)"
  by (simp add: plusYears_def andThen_def checkValidIntValue_def isValidValue_def
      ValueRange_of_def withYearMonth_value)

lemma plusMonths_value:
  "plusMonths this n =
     (if n = 0 then Inr this
      else if MIN_YEAR \<le> (year this * 12 + (month this - 1) + n) div 12
            \<and> (year this * 12 + (month this - 1) + n) div 12 \<le> MAX_YEAR
      then Inr \<lparr>year = (year this * 12 + (month this - 1) + n) div 12,
                month = (year this * 12 + (month this - 1) + n) mod 12 + 1\<rparr>
      else Inl DateTimeException)"
  by (simp add: plusMonths_def Let_def andThen_def checkValidIntValue_def isValidValue_def
      ValueRange_of_def floorDiv_def floorMod_def withYearMonth_value)

lemma withYear_value:
  "withYear this y =
     (if MIN_YEAR \<le> y \<and> y \<le> MAX_YEAR then Inr \<lparr>year = y, month = month this\<rparr>
      else Inl DateTimeException)"
  by (simp add: withYear_def andThen_def checkValidValue_def isValidValue_def ValueRange_of_def
      withYearMonth_value)

lemma withMonth_value:
  "withMonth this m =
     (if 1 \<le> m \<and> m \<le> 12 then Inr \<lparr>year = year this, month = m\<rparr>
      else Inl DateTimeException)"
  by (simp add: withMonth_def andThen_def checkValidValue_def isValidValue_def ValueRange_of_def
      withYearMonth_value)

lemma getProlepticMonth_value:
  "getProlepticMonth this =
     (if isSafeInteger (year this * 12) \<and> isSafeInteger (year this * 12 + (month this - 1))
      then Inr (year this * 12 + (month this - 1)) else Inl ArithmeticException)"
  by (simp add: getProlepticMonth_def andThen_def safeMultiply_def safeAdd_def)

lemma getProlepticMonth_valid:
  "valid_YearMonth this \<Longrightarrow> getProlepticMonth this = Inr (year this * 12 + (month this - 1))"
  by (simp add: getProlepticMonth_value valid_YearMonth_def isSafeInteger_def MIN_YEAR_def
      MAX_YEAR_def MIN_SAFE_INTEGER_def MAX_SAFE_INTEGER_def)

lemma getLong_ChronoField:
  "getLong this (Some (FieldToken (ChronoField f))) =
     getLong_switch this (FieldToken (ChronoField f))"
  by (simp add: getLong_def guards)

lemma withFieldValue_ChronoField:
  "withFieldValue this (Some (FieldToken (ChronoField f))) v =
     (if isValidValue (field_range f) v
      then withFieldValue_switch this (FieldToken (ChronoField f)) v
      else Inl DateTimeException)"
  by (simp add: withFieldValue_def guards checkValidValue_def)

lemma with_PROLEPTIC_MONTH_value:
  assumes "valid_YearMonth this" and "isValidValue (field_range PROLEPTIC_MONTH) v"
  shows "withFieldValue this (Some (FieldToken (ChronoField PROLEPTIC_MONTH))) v =
           Inr \<lparr>year = v div 12, month = v mod 12 + 1\<rparr>"
proof -
  let ?p = "year this * 12 + (month this - 1)"
  have m: "1 \<le> month this" "month this \<le> 12"
    using assms(1) by (simp_all add: valid_YearMonth_def)
  have v: "MIN_YEAR * 12 \<le> v" "v \<le> MAX_YEAR * 12 + 11"
    using assms(2) by (simp_all add: isValidValue_def ValueRange_of_def)
  have lo: "MIN_YEAR \<le> v div 12"
    using v(1) by (simp add: MIN_YEAR_def)
  have hi: "v div 12 \<le> MAX_YEAR"
    using v(2) by (simp add: MAX_YEAR_def)
  have same: "this = \<lparr>year = ?p div 12, month = ?p mod 12 + 1\<rparr>"
  proof -
    have "?p div 12 = year this" using m by presburger
    moreover have "?p mod 12 + 1 = month this" using m by presburger
    ultimately show ?thesis by simp
  qed
  have "withFieldValue this (Some (FieldToken (ChronoField PROLEPTIC_MONTH))) v =
          plusMonths this (v - ?p)"
    using assms by (simp add: withFieldValue_ChronoField getLong_ChronoField
        getProlepticMonth_valid andThen_def)
  also have "\<dots> = Inr \<lparr>year = v div 12, month = v mod 12 + 1\<rparr>"
  proof (cases "v = ?p")
    case True
    then show ?thesis using same by (simp add: plusMonths_value)
  next
    case False
    then show ?thesis using lo hi by (simp add: plusMonths_value)
  qed
  finally show ?thesis .
qed

lemma minusMonths_after_plusMonths:
  assumes valid: "valid_YearMonth this" and plus: "plusMonths this n = Inr r"
  shows "minusMonths r n = Inr this"
proof (cases "n = 0")
  case True
  then show ?thesis
    using plus by (simp add: plusMonths_value minusMonths_def MIN_SAFE_INTEGER_def)
next
  case False
  let ?t = "year this * 12 + (month this - 1) + n"
  have m: "1 \<le> month this" "month this \<le> 12"
    and y: "MIN_YEAR \<le> year this" "year this \<le> MAX_YEAR"
    using valid by (simp_all add: valid_YearMonth_def)
  have range: "MIN_YEAR \<le> ?t div 12" "?t div 12 \<le> MAX_YEAR"
    and r: "r = \<lparr>year = ?t div 12, month = ?t mod 12 + 1\<rparr>"
    using plus False by (auto simp add: plusMonths_value split: if_splits)
  have notmin: "n \<noteq> MIN_SAFE_INTEGER"
  proof
    assume "n = MIN_SAFE_INTEGER"
    then have "?t div 12 < MIN_YEAR"
      using y(2) m(2) by (simp add: MIN_SAFE_INTEGER_def MIN_YEAR_def MAX_YEAR_def)
    then show False using range(1) by simp
  qed
  have total: "year r * 12 + (month r - 1) = ?t"
    by (simp add: r)
  have inv: "year r * 12 + (month r - 1) + - n = year this * 12 + (month this - 1)"
    unfolding total by simp
  have yd: "(year this * 12 + (month this - 1)) div 12 = year this"
    using m by presburger
  have md: "(year this * 12 + (month this - 1)) mod 12 + 1 = month this"
    using m by presburger
  have "minusMonths r n = plusMonths r (- n)"
    using notmin by (simp add: minusMonths_def)
  also have "\<dots> =
      (if - n = 0 then Inr r
       else if MIN_YEAR \<le> year this \<and> year this \<le> MAX_YEAR
       then Inr \<lparr>year = year this, month = month this\<rparr>
       else Inl DateTimeException)"
    by (simp only: plusMonths_value [of r "- n"] inv yd md)
  also have "\<dots> = Inr \<lparr>year = year this, month = month this\<rparr>"
    using False y by simp
  finally show ?thesis by simp
qed

subsection \<open>The operations\<close>

text \<open>C1: what \<open>plus(amount, unit)\<close> does with a constant of \<open>ChronoUnit\<close>. The switch over
  MONTHS, YEARS, DECADES, CENTURIES, MILLENNIA and ERAS is guarded by
  \<open>unit instanceof ChronoField\<close>, which no unit passes: for every constant of \<open>ChronoUnit\<close>,
  the six named ones and any other, the call is handed to \<open>unit.addTo(this, amount)\<close>.
  Neither \<open>plusMonths\<close> nor \<open>plusYears\<close> is called, and no
  \<open>UnsupportedTemporalTypeException\<close> is raised here: whatever the argument, the switch is
  never entered.\<close>

theorem plusAmountUnit_ChronoUnit:
  "plusAmountUnit chronoUnit_addTo this n (Some (UnitToken (ChronoUnit u))) =
     chronoUnit_addTo u this n
   \<and> plusAmountUnit chronoUnit_addTo \<lparr>year = 2007, month = 12\<rparr> 1
        (Some (UnitToken (ChronoUnit MONTHS))) =
      chronoUnit_addTo MONTHS \<lparr>year = 2007, month = 12\<rparr> 1
   \<and> plusAmountUnit chronoUnit_addTo this n unit =
      (case unit of
         None \<Rightarrow> Inl NullPointerException
       | Some (FieldToken f) \<Rightarrow> Inl IllegalArgumentException
       | Some (UnitToken (ChronoUnit u)) \<Rightarrow> chronoUnit_addTo u this n
       | Some (UnitToken (ForeignUnit g)) \<Rightarrow> unit_addTo g this n)"
  by (simp add: plusAmountUnit_def guards split: option.split token.split TemporalUnit.split)

text \<open>C2: the boundary branches of \<open>minusYears\<close> and \<open>minusMonths\<close>, evaluated. For the
  amount \<open>MIN_SAFE_INTEGER\<close>, \<open>minusYears\<close> calls \<open>plusYears(MIN_SAFE_INTEGER)\<close> and then
  \<open>plusYears(1)\<close>: it adds the negative extreme, not \<open>MAX_SAFE_INTEGER\<close>. On 2007-12 this
  fails in the range check; on the object \<open>new YearMonth(MAX_SAFE_INTEGER, 1)\<close> it returns
  0001-01, where adding \<open>MAX_SAFE_INTEGER\<close> and then 1 fails. \<open>minusMonths\<close> calls
  \<open>plusMonths(undefined)\<close>, which fails on every value, also on the object
  \<open>new YearMonth(-750599937895082, 1)\<close>, where adding \<open>MAX_SAFE_INTEGER\<close> months and then 1
  gives 0000-09. The sibling \<open>_minusAmountUnit\<close> does add \<open>MAX_SAFE_INTEGER\<close> and then 1.\<close>

theorem minus_boundary_branches:
  "minusYears \<lparr>year = 2007, month = 12\<rparr> MIN_SAFE_INTEGER =
     andThen (plusYears \<lparr>year = 2007, month = 12\<rparr> (- 9007199254740991)) (\<lambda>r. plusYears r 1)
   \<and> minusYears \<lparr>year = 2007, month = 12\<rparr> MIN_SAFE_INTEGER = Inl DateTimeException
   \<and> minusYears \<lparr>year = MAX_SAFE_INTEGER, month = 1\<rparr> MIN_SAFE_INTEGER =
       Inr \<lparr>year = 1, month = 1\<rparr>
   \<and> andThen (plusYears \<lparr>year = MAX_SAFE_INTEGER, month = 1\<rparr> MAX_SAFE_INTEGER)
       (\<lambda>r. plusYears r 1) = Inl DateTimeException
   \<and> minusMonths \<lparr>year = 2007, month = 12\<rparr> MIN_SAFE_INTEGER =
       andThen (plusMonths_undefined \<lparr>year = 2007, month = 12\<rparr>) (\<lambda>r. plusMonths r 1)
   \<and> minusMonths \<lparr>year = 2007, month = 12\<rparr> MIN_SAFE_INTEGER = Inl DateTimeException
   \<and> minusMonths \<lparr>year = - 750599937895082, month = 1\<rparr> MIN_SAFE_INTEGER =
       Inl DateTimeException
   \<and> andThen (plusMonths \<lparr>year = - 750599937895082, month = 1\<rparr> MAX_SAFE_INTEGER)
       (\<lambda>r. plusMonths r 1) = Inr \<lparr>year = 0, month = 9\<rparr>
   \<and> minusAmountUnit chronoUnit_addTo \<lparr>year = 2007, month = 12\<rparr> MIN_SAFE_INTEGER unit =
       andThen (plusAmountUnit chronoUnit_addTo \<lparr>year = 2007, month = 12\<rparr>
                  9007199254740991 unit)
         (\<lambda>r. plusAmountUnit chronoUnit_addTo r 1 unit)"
  by (simp add: minusYears_def minusMonths_def minusAmountUnit_def plusMonths_undefined_def
      plusYears_value plusMonths_value andThen_def MIN_SAFE_INTEGER_def MAX_SAFE_INTEGER_def
      MIN_YEAR_def MAX_YEAR_def)

text \<open>C3: \<open>plusMonths(n)\<close> returns the same value when \<open>n = 0\<close>. Otherwise, with
  \<open>t = year * 12 + (month - 1) + n\<close>, it returns the value with year \<open>floorDiv(t, 12)\<close> and
  month \<open>floorMod(t, 12) + 1\<close> when that year lies in the YEAR range, and fails when it does
  not. In particular \<open>of(2007,12).plusMonths(1)\<close> and \<open>of(2008,1)\<close> are both the
  value 2008-01, and \<open>of(2008,1).minusMonths(1)\<close> and \<open>of(2007,12)\<close> are both the value
  2007-12; two objects holding the same value are equal by \<open>equals\<close>.\<close>

theorem plusMonths_spec:
  "plusMonths this n =
     (if n = 0 then Inr this
      else if MIN_YEAR \<le> floorDiv (year this * 12 + (month this - 1) + n) 12
            \<and> floorDiv (year this * 12 + (month this - 1) + n) 12 \<le> MAX_YEAR
      then Inr \<lparr>year = floorDiv (year this * 12 + (month this - 1) + n) 12,
                month = floorMod (year this * 12 + (month this - 1) + n) 12 + 1\<rparr>
      else Inl DateTimeException)
   \<and> andThen (YearMonth_of 2007 12) (\<lambda>v. plusMonths v 1) = Inr \<lparr>year = 2008, month = 1\<rparr>
   \<and> YearMonth_of 2008 1 = Inr \<lparr>year = 2008, month = 1\<rparr>
   \<and> equals a \<lparr>year = 2008, month = 1\<rparr> (Object (YearMonthObject b \<lparr>year = 2008, month = 1\<rparr>))
   \<and> andThen (YearMonth_of 2008 1) (\<lambda>v. minusMonths v 1) = Inr \<lparr>year = 2007, month = 12\<rparr>
   \<and> YearMonth_of 2007 12 = Inr \<lparr>year = 2007, month = 12\<rparr>
   \<and> equals a \<lparr>year = 2007, month = 12\<rparr>
        (Object (YearMonthObject b \<lparr>year = 2007, month = 12\<rparr>))"
  by (simp add: plusMonths_value YearMonth_of_value minusMonths_def andThen_def floorDiv_def
      floorMod_def MIN_YEAR_def MAX_YEAR_def MIN_SAFE_INTEGER_def equals_def identical_def
      monthValue_def)

text \<open>C4: \<open>getLong(field)\<close> on the fields of \<open>ChronoField\<close>. MONTH_OF_YEAR gives the month;
  PROLEPTIC_MONTH gives \<open>year * 12 + (month - 1)\<close>, computed with the overflow-checked
  multiplication and addition, which never fail on a value inside its ranges; YEAR_OF_ERA
  gives \<open>1 - year\<close> if \<open>year < 1\<close> and the year otherwise; YEAR gives the year; ERA gives 0
  if \<open>year < 1\<close> and 1 otherwise; any other constant of \<open>ChronoField\<close> fails with
  \<open>UnsupportedTemporalTypeException\<close>.\<close>

theorem getLong_spec:
  "getLong this (Some (FieldToken (ChronoField MONTH_OF_YEAR))) = Inr (month this)
   \<and> getLong this (Some (FieldToken (ChronoField PROLEPTIC_MONTH))) =
       (if isSafeInteger (year this * 12) \<and> isSafeInteger (year this * 12 + (month this - 1))
        then Inr (year this * 12 + (month this - 1)) else Inl ArithmeticException)
   \<and> (valid_YearMonth this \<longrightarrow>
        getLong this (Some (FieldToken (ChronoField PROLEPTIC_MONTH))) =
          Inr (year this * 12 + (month this - 1)))
   \<and> getLong this (Some (FieldToken (ChronoField YEAR_OF_ERA))) =
       Inr (if year this < 1 then 1 - year this else year this)
   \<and> getLong this (Some (FieldToken (ChronoField YEAR))) = Inr (year this)
   \<and> getLong this (Some (FieldToken (ChronoField ERA))) = Inr (if year this < 1 then 0 else 1)
   \<and> getLong this (Some (FieldToken (ChronoField (OTHER_CHRONO_FIELD r)))) =
       Inl UnsupportedTemporalTypeException"
proof -
  have "valid_YearMonth this \<longrightarrow>
        getLong this (Some (FieldToken (ChronoField PROLEPTIC_MONTH))) =
          Inr (year this * 12 + (month this - 1))"
    by (simp add: getLong_ChronoField getProlepticMonth_valid)
  moreover have "getLong this (Some (FieldToken (ChronoField PROLEPTIC_MONTH))) =
       (if isSafeInteger (year this * 12) \<and> isSafeInteger (year this * 12 + (month this - 1))
        then Inr (year this * 12 + (month this - 1)) else Inl ArithmeticException)"
    by (simp add: getLong_ChronoField getProlepticMonth_value)
  ultimately show ?thesis
    by (simp add: getLong_ChronoField)
qed

theorem getLong_spec_witness:
  "valid_YearMonth \<lparr>year = 0, month = 6\<rparr>
   \<and> getLong \<lparr>year = 0, month = 6\<rparr> (Some (FieldToken (ChronoField PROLEPTIC_MONTH))) = Inr 5
   \<and> getLong \<lparr>year = 0, month = 6\<rparr> (Some (FieldToken (ChronoField ERA))) = Inr 0
   \<and> getLong \<lparr>year = 0, month = 6\<rparr> (Some (FieldToken (ChronoField YEAR_OF_ERA))) = Inr 1"
  using getLong_spec [of "\<lparr>year = 0, month = 6\<rparr>" "ValueRange_of 0 0"]
  by (simp add: valid_YearMonth_def MIN_YEAR_def MAX_YEAR_def isSafeInteger_def
      MIN_SAFE_INTEGER_def MAX_SAFE_INTEGER_def)

text \<open>C6: \<open>with(field, newValue)\<close> on a field of \<open>ChronoField\<close>. A new value outside the
  declared range of the field fails with \<open>DateTimeException\<close>, before anything else. Inside
  the range: MONTH_OF_YEAR replaces the month and keeps the year; PROLEPTIC_MONTH adds the
  difference between the new value and the current proleptic month with \<open>plusMonths\<close>, which
  on a value inside its ranges yields year \<open>newValue div 12\<close> and month
  \<open>newValue mod 12 + 1\<close>; YEAR replaces the year and keeps the month. YEAR_OF_ERA takes the
  year \<open>1 - newValue\<close> if the current year is below 1 and \<open>newValue\<close> otherwise, and ERA
  returns the same value if the era is already \<open>newValue\<close> and takes the year \<open>1 - year\<close>
  otherwise; both hand that year to the validated setter \<open>withYear\<close>, so the year is replaced
  (the month kept, and under YEAR_OF_ERA the era kept) when it lies between MIN_YEAR and
  MAX_YEAR, and the call fails with \<open>DateTimeException\<close> when it does not. On a value inside
  its ranges that failure happens in exactly two cases: YEAR_OF_ERA with the new value
  MAX_YEAR + 1 on a year of at least 1, and ERA with the new value 1 on the year MIN_YEAR.\<close>

theorem withFieldValue_spec:
  "(\<not> isValidValue (field_range f) v \<longrightarrow>
      withFieldValue this (Some (FieldToken (ChronoField f))) v = Inl DateTimeException)
   \<and> (isValidValue (field_range MONTH_OF_YEAR) v \<longrightarrow>
      withFieldValue this (Some (FieldToken (ChronoField MONTH_OF_YEAR))) v =
        Inr \<lparr>year = year this, month = v\<rparr>)
   \<and> (isValidValue (field_range PROLEPTIC_MONTH) v \<and> valid_YearMonth this \<longrightarrow>
      withFieldValue this (Some (FieldToken (ChronoField PROLEPTIC_MONTH))) v =
        plusMonths this (v - (year this * 12 + (month this - 1)))
      \<and> plusMonths this (v - (year this * 12 + (month this - 1))) =
        Inr \<lparr>year = v div 12, month = v mod 12 + 1\<rparr>)
   \<and> (isValidValue (field_range YEAR_OF_ERA) v \<longrightarrow>
      withFieldValue this (Some (FieldToken (ChronoField YEAR_OF_ERA))) v =
        (if MIN_YEAR \<le> (if year this < 1 then 1 - v else v)
            \<and> (if year this < 1 then 1 - v else v) \<le> MAX_YEAR
         then Inr \<lparr>year = (if year this < 1 then 1 - v else v), month = month this\<rparr>
         else Inl DateTimeException))
   \<and> (isValidValue (field_range YEAR_OF_ERA) v
        \<and> withFieldValue this (Some (FieldToken (ChronoField YEAR_OF_ERA))) v = Inr r \<longrightarrow>
      (year r < 1) = (year this < 1))
   \<and> (isValidValue (field_range YEAR_OF_ERA) v \<and> valid_YearMonth this \<longrightarrow>
      (withFieldValue this (Some (FieldToken (ChronoField YEAR_OF_ERA))) v =
         Inl DateTimeException) = (1 \<le> year this \<and> v = MAX_YEAR + 1))
   \<and> (isValidValue (field_range YEAR) v \<longrightarrow>
      withFieldValue this (Some (FieldToken (ChronoField YEAR))) v =
        Inr \<lparr>year = v, month = month this\<rparr>)
   \<and> (isValidValue (field_range ERA) v \<longrightarrow>
      withFieldValue this (Some (FieldToken (ChronoField ERA))) v =
        (if (if year this < 1 then 0 else 1) = v then Inr this
         else if MIN_YEAR \<le> 1 - year this \<and> 1 - year this \<le> MAX_YEAR
         then Inr \<lparr>year = 1 - year this, month = month this\<rparr>
         else Inl DateTimeException))
   \<and> (isValidValue (field_range ERA) v \<and> valid_YearMonth this \<longrightarrow>
      (withFieldValue this (Some (FieldToken (ChronoField ERA))) v =
         Inl DateTimeException) = (year this = MIN_YEAR \<and> v = 1))"
proof -
  have c1: "\<not> isValidValue (field_range f) v \<longrightarrow>
      withFieldValue this (Some (FieldToken (ChronoField f))) v = Inl DateTimeException"
    by (simp add: withFieldValue_ChronoField)
  have c2: "isValidValue (field_range MONTH_OF_YEAR) v \<longrightarrow>
      withFieldValue this (Some (FieldToken (ChronoField MONTH_OF_YEAR))) v =
        Inr \<lparr>year = year this, month = v\<rparr>"
    by (simp add: withFieldValue_ChronoField withMonth_value isValidValue_def ValueRange_of_def)
  have c3: "isValidValue (field_range PROLEPTIC_MONTH) v \<and> valid_YearMonth this \<longrightarrow>
      withFieldValue this (Some (FieldToken (ChronoField PROLEPTIC_MONTH))) v =
        plusMonths this (v - (year this * 12 + (month this - 1)))
      \<and> plusMonths this (v - (year this * 12 + (month this - 1))) =
        Inr \<lparr>year = v div 12, month = v mod 12 + 1\<rparr>"
  proof (intro impI conjI)
    assume a: "isValidValue (field_range PROLEPTIC_MONTH) v \<and> valid_YearMonth this"
    then show "withFieldValue this (Some (FieldToken (ChronoField PROLEPTIC_MONTH))) v =
        plusMonths this (v - (year this * 12 + (month this - 1)))"
      by (simp add: withFieldValue_ChronoField getLong_ChronoField getProlepticMonth_valid
          andThen_def)
    then have "plusMonths this (v - (year this * 12 + (month this - 1))) =
        withFieldValue this (Some (FieldToken (ChronoField PROLEPTIC_MONTH))) v"
      by simp
    with a show "plusMonths this (v - (year this * 12 + (month this - 1))) =
        Inr \<lparr>year = v div 12, month = v mod 12 + 1\<rparr>"
      by (simp add: with_PROLEPTIC_MONTH_value)
  qed
  have c4: "isValidValue (field_range YEAR_OF_ERA) v \<longrightarrow>
      withFieldValue this (Some (FieldToken (ChronoField YEAR_OF_ERA))) v =
        (if MIN_YEAR \<le> (if year this < 1 then 1 - v else v)
            \<and> (if year this < 1 then 1 - v else v) \<le> MAX_YEAR
         then Inr \<lparr>year = (if year this < 1 then 1 - v else v), month = month this\<rparr>
         else Inl DateTimeException)"
    by (simp add: withFieldValue_ChronoField withYear_value)
  have c5: "isValidValue (field_range YEAR_OF_ERA) v
        \<and> withFieldValue this (Some (FieldToken (ChronoField YEAR_OF_ERA))) v = Inr r \<longrightarrow>
      (year r < 1) = (year this < 1)"
    by (auto simp add: withFieldValue_ChronoField withYear_value isValidValue_def
        ValueRange_of_def split: if_splits)
  have c6: "isValidValue (field_range YEAR_OF_ERA) v \<and> valid_YearMonth this \<longrightarrow>
      (withFieldValue this (Some (FieldToken (ChronoField YEAR_OF_ERA))) v =
         Inl DateTimeException) = (1 \<le> year this \<and> v = MAX_YEAR + 1)"
    by (auto simp add: withFieldValue_ChronoField withYear_value isValidValue_def
        ValueRange_of_def valid_YearMonth_def MIN_YEAR_def MAX_YEAR_def split: if_splits)
  have c7: "isValidValue (field_range YEAR) v \<longrightarrow>
      withFieldValue this (Some (FieldToken (ChronoField YEAR))) v =
        Inr \<lparr>year = v, month = month this\<rparr>"
    by (simp add: withFieldValue_ChronoField withYear_value isValidValue_def ValueRange_of_def)
  have c8: "isValidValue (field_range ERA) v \<longrightarrow>
      withFieldValue this (Some (FieldToken (ChronoField ERA))) v =
        (if (if year this < 1 then 0 else 1) = v then Inr this
         else if MIN_YEAR \<le> 1 - year this \<and> 1 - year this \<le> MAX_YEAR
         then Inr \<lparr>year = 1 - year this, month = month this\<rparr>
         else Inl DateTimeException)"
    by (simp add: withFieldValue_ChronoField getLong_ChronoField andThen_def withYear_value)
  have c9: "isValidValue (field_range ERA) v \<and> valid_YearMonth this \<longrightarrow>
      (withFieldValue this (Some (FieldToken (ChronoField ERA))) v =
         Inl DateTimeException) = (year this = MIN_YEAR \<and> v = 1)"
    by (auto simp add: withFieldValue_ChronoField getLong_ChronoField andThen_def
        withYear_value isValidValue_def ValueRange_of_def valid_YearMonth_def MIN_YEAR_def
        MAX_YEAR_def split: if_splits)
  from c1 c2 c3 c4 c5 c6 c7 c8 c9 show ?thesis
    by blast
qed

theorem withFieldValue_spec_witness:
  "withFieldValue \<lparr>year = 2007, month = 12\<rparr> (Some (FieldToken (ChronoField MONTH_OF_YEAR))) 13
     = Inl DateTimeException
   \<and> withFieldValue \<lparr>year = 2007, month = 12\<rparr> (Some (FieldToken (ChronoField MONTH_OF_YEAR))) 6
     = Inr \<lparr>year = 2007, month = 6\<rparr>
   \<and> withFieldValue \<lparr>year = 2007, month = 12\<rparr>
        (Some (FieldToken (ChronoField PROLEPTIC_MONTH))) 24096
     = Inr \<lparr>year = 2008, month = 1\<rparr>
   \<and> withFieldValue \<lparr>year = 0, month = 6\<rparr> (Some (FieldToken (ChronoField YEAR_OF_ERA))) 5
     = Inr \<lparr>year = - 4, month = 6\<rparr>
   \<and> withFieldValue \<lparr>year = 2007, month = 12\<rparr>
        (Some (FieldToken (ChronoField YEAR_OF_ERA))) 1000000000
     = Inl DateTimeException
   \<and> withFieldValue \<lparr>year = 2007, month = 12\<rparr> (Some (FieldToken (ChronoField YEAR))) 1999
     = Inr \<lparr>year = 1999, month = 12\<rparr>
   \<and> withFieldValue \<lparr>year = 2007, month = 12\<rparr> (Some (FieldToken (ChronoField ERA))) 1
     = Inr \<lparr>year = 2007, month = 12\<rparr>
   \<and> withFieldValue \<lparr>year = 2007, month = 12\<rparr> (Some (FieldToken (ChronoField ERA))) 0
     = Inr \<lparr>year = - 2006, month = 12\<rparr>
   \<and> withFieldValue \<lparr>year = - 999999999, month = 6\<rparr> (Some (FieldToken (ChronoField ERA))) 1
     = Inl DateTimeException"
proof -
  note bounds = isValidValue_def ValueRange_of_def valid_YearMonth_def MIN_YEAR_def MAX_YEAR_def
  have "withFieldValue \<lparr>year = 2007, month = 12\<rparr>
          (Some (FieldToken (ChronoField MONTH_OF_YEAR))) 13 = Inl DateTimeException"
    using withFieldValue_spec [where f = MONTH_OF_YEAR and v = 13
        and this = "\<lparr>year = 2007, month = 12\<rparr>" and r = "\<lparr>year = 2007, month = 12\<rparr>"]
    by (simp add: bounds)
  moreover have "withFieldValue \<lparr>year = 2007, month = 12\<rparr>
          (Some (FieldToken (ChronoField MONTH_OF_YEAR))) 6 = Inr \<lparr>year = 2007, month = 6\<rparr>"
    using withFieldValue_spec [where f = MONTH_OF_YEAR and v = 6
        and this = "\<lparr>year = 2007, month = 12\<rparr>" and r = "\<lparr>year = 2007, month = 12\<rparr>"]
    by (simp add: bounds)
  moreover have "withFieldValue \<lparr>year = 2007, month = 12\<rparr>
          (Some (FieldToken (ChronoField PROLEPTIC_MONTH))) 24096
          = Inr \<lparr>year = 2008, month = 1\<rparr>"
    using withFieldValue_spec [where f = MONTH_OF_YEAR and v = 24096
        and this = "\<lparr>year = 2007, month = 12\<rparr>" and r = "\<lparr>year = 2007, month = 12\<rparr>"]
    by (simp add: bounds)
  moreover have "withFieldValue \<lparr>year = 0, month = 6\<rparr>
          (Some (FieldToken (ChronoField YEAR_OF_ERA))) 5 = Inr \<lparr>year = - 4, month = 6\<rparr>"
    using withFieldValue_spec [where f = MONTH_OF_YEAR and v = 5
        and this = "\<lparr>year = 0, month = 6\<rparr>" and r = "\<lparr>year = - 4, month = 6\<rparr>"]
    by (simp add: bounds)
  moreover have "withFieldValue \<lparr>year = 2007, month = 12\<rparr>
          (Some (FieldToken (ChronoField YEAR_OF_ERA))) 1000000000 = Inl DateTimeException"
    using withFieldValue_spec [where f = MONTH_OF_YEAR and v = 1000000000
        and this = "\<lparr>year = 2007, month = 12\<rparr>" and r = "\<lparr>year = 2007, month = 12\<rparr>"]
    by (simp add: bounds)
  moreover have "withFieldValue \<lparr>year = 2007, month = 12\<rparr>
          (Some (FieldToken (ChronoField YEAR))) 1999 = Inr \<lparr>year = 1999, month = 12\<rparr>"
    using withFieldValue_spec [where f = MONTH_OF_YEAR and v = 1999
        and this = "\<lparr>year = 2007, month = 12\<rparr>" and r = "\<lparr>year = 2007, month = 12\<rparr>"]
    by (simp add: bounds)
  moreover have "withFieldValue \<lparr>year = 2007, month = 12\<rparr>
          (Some (FieldToken (ChronoField ERA))) 1 = Inr \<lparr>year = 2007, month = 12\<rparr>"
    using withFieldValue_spec [where f = MONTH_OF_YEAR and v = 1
        and this = "\<lparr>year = 2007, month = 12\<rparr>" and r = "\<lparr>year = 2007, month = 12\<rparr>"]
    by (simp add: bounds)
  moreover have "withFieldValue \<lparr>year = 2007, month = 12\<rparr>
          (Some (FieldToken (ChronoField ERA))) 0 = Inr \<lparr>year = - 2006, month = 12\<rparr>"
    using withFieldValue_spec [where f = MONTH_OF_YEAR and v = 0
        and this = "\<lparr>year = 2007, month = 12\<rparr>" and r = "\<lparr>year = 2007, month = 12\<rparr>"]
    by (simp add: bounds)
  moreover have "withFieldValue \<lparr>year = - 999999999, month = 6\<rparr>
          (Some (FieldToken (ChronoField ERA))) 1 = Inl DateTimeException"
    using withFieldValue_spec [where f = MONTH_OF_YEAR and v = 1
        and this = "\<lparr>year = - 999999999, month = 6\<rparr>"
        and r = "\<lparr>year = 2007, month = 12\<rparr>"]
    by (simp add: bounds)
  ultimately show ?thesis by blast
qed

text \<open>The edge where the year is not replaced. The values 2007-12 and MIN_YEAR-06 come from
  the factory \<open>of\<close>, and the new values MAX_YEAR + 1 for YEAR_OF_ERA and 1 for ERA are inside
  the declared ranges of their fields. The era of MIN_YEAR-06 is 0, not 1, and 2007 is not
  below 1, so the years to set are \<open>1 - MIN_YEAR\<close> and \<open>MAX_YEAR + 1\<close>. Both lie above
  MAX_YEAR: \<open>withYear\<close> rejects them, and the call fails with \<open>DateTimeException\<close> instead of
  returning the value with the year replaced.\<close>

theorem withFieldValue_replace_counterexample:
  "YearMonth_of MIN_YEAR 6 = Inr \<lparr>year = MIN_YEAR, month = 6\<rparr>
   \<and> isValidValue (field_range ERA) 1
   \<and> getLong \<lparr>year = MIN_YEAR, month = 6\<rparr> (Some (FieldToken (ChronoField ERA))) = Inr 0
   \<and> withFieldValue \<lparr>year = MIN_YEAR, month = 6\<rparr> (Some (FieldToken (ChronoField ERA))) 1 =
       Inl DateTimeException
   \<and> withFieldValue \<lparr>year = MIN_YEAR, month = 6\<rparr> (Some (FieldToken (ChronoField ERA))) 1 \<noteq>
       Inr \<lparr>year = 1 - MIN_YEAR, month = 6\<rparr>
   \<and> YearMonth_of 2007 12 = Inr \<lparr>year = 2007, month = 12\<rparr>
   \<and> isValidValue (field_range YEAR_OF_ERA) (MAX_YEAR + 1)
   \<and> withFieldValue \<lparr>year = 2007, month = 12\<rparr>
        (Some (FieldToken (ChronoField YEAR_OF_ERA))) (MAX_YEAR + 1) = Inl DateTimeException
   \<and> withFieldValue \<lparr>year = 2007, month = 12\<rparr>
        (Some (FieldToken (ChronoField YEAR_OF_ERA))) (MAX_YEAR + 1) \<noteq>
       Inr \<lparr>year = MAX_YEAR + 1, month = 12\<rparr>"
  by (simp add: YearMonth_of_value withFieldValue_ChronoField getLong_ChronoField andThen_def
      withYear_value isValidValue_def ValueRange_of_def MIN_YEAR_def MAX_YEAR_def)

text \<open>C7: on a value inside its ranges, whenever \<open>plusMonths(n)\<close> succeeds,
  \<open>minusMonths(n)\<close> on its result succeeds too and gives back the original value; so
  whatever \<open>minusMonths(n)\<close> returns there is equal, by \<open>equals\<close>, to the original.\<close>

theorem plusMonths_minusMonths:
  assumes "valid_YearMonth this" and "plusMonths this n = Inr r"
  shows "minusMonths r n = Inr this
         \<and> (\<forall>r'. minusMonths r n = Inr r' \<longrightarrow>
               equals a r' (Object (YearMonthObject b this)))"
  using minusMonths_after_plusMonths [OF assms]
  by (simp add: equals_def identical_def monthValue_def)

theorem plusMonths_minusMonths_witness:
  "valid_YearMonth \<lparr>year = 2007, month = 12\<rparr>
   \<and> plusMonths \<lparr>year = 2007, month = 12\<rparr> 1 = Inr \<lparr>year = 2008, month = 1\<rparr>
   \<and> minusMonths \<lparr>year = 2008, month = 1\<rparr> 1 = Inr \<lparr>year = 2007, month = 12\<rparr>"
proof -
  have v: "valid_YearMonth \<lparr>year = 2007, month = 12\<rparr>"
    by (simp add: valid_YearMonth_def MIN_YEAR_def MAX_YEAR_def)
  have p: "plusMonths \<lparr>year = 2007, month = 12\<rparr> 1 = Inr \<lparr>year = 2008, month = 1\<rparr>"
    by (simp add: plusMonths_value MIN_YEAR_def MAX_YEAR_def)
  show ?thesis
    using v p plusMonths_minusMonths [OF v p, of 0 1] by simp
qed

text \<open>C8: \<open>range(YEAR_OF_ERA)\<close> is the inclusive range from 1 to MAX_YEAR on a value whose
  year is at least 1, and from 1 to MAX_YEAR + 1 on a value whose year is below 1, whatever
  \<open>super.range\<close> does.\<close>

theorem range_YEAR_OF_ERA:
  "(1 \<le> year this \<longrightarrow>
      range_field super_range this (Some (FieldToken (ChronoField YEAR_OF_ERA))) =
        Inr (ValueRange_of 1 MAX_YEAR))
   \<and> (year this < 1 \<longrightarrow>
      range_field super_range this (Some (FieldToken (ChronoField YEAR_OF_ERA))) =
        Inr (ValueRange_of 1 (MAX_YEAR + 1)))"
  by (simp add: range_field_def)

theorem range_YEAR_OF_ERA_witness:
  "(1::int) \<le> year \<lparr>year = 2007, month = 12\<rparr>
   \<and> range_field (\<lambda>_ _. Inl DateTimeException) \<lparr>year = 2007, month = 12\<rparr>
        (Some (FieldToken (ChronoField YEAR_OF_ERA))) = Inr \<lparr>minimum = 1, maximum = 999999999\<rparr>
   \<and> year \<lparr>year = 0, month = 6\<rparr> < 1
   \<and> range_field (\<lambda>_ _. Inl DateTimeException) \<lparr>year = 0, month = 6\<rparr>
        (Some (FieldToken (ChronoField YEAR_OF_ERA))) = Inr \<lparr>minimum = 1, maximum = 1000000000\<rparr>"
  using range_YEAR_OF_ERA [of "\<lparr>year = 2007, month = 12\<rparr>" "\<lambda>_ _. Inl DateTimeException"]
    range_YEAR_OF_ERA [of "\<lparr>year = 0, month = 6\<rparr>" "\<lambda>_ _. Inl DateTimeException"]
  by (simp add: ValueRange_of_def MAX_YEAR_def)

text \<open>C9: \<open>from(t)\<close> returns \<open>t\<close> itself, the identical instance, when \<open>t\<close> is a YearMonth.
  Otherwise it asks \<open>t\<close> for YEAR and MONTH_OF_YEAR through the \<open>get\<close> of \<open>t\<close> and builds the
  result with \<open>of\<close>. Whenever that does not yield a value (a \<open>get\<close> throws or returns
  \<open>null\<close>, or \<open>of\<close> rejects the numbers), \<open>from(t)\<close> fails with a \<open>DateTimeException\<close> whose
  message names the string that \<open>t\<close> converts to and the name of its constructor.\<close>

theorem from_spec:
  "YearMonth_from (Some (YearMonthObject a v)) = Inr (Argument (YearMonthObject a v))
   \<and> (accessor_get acc YEAR = Inr (Some y) \<and> accessor_get acc MONTH_OF_YEAR = Inr (Some m)
        \<and> YearMonth_of y m = Inr v' \<longrightarrow>
      YearMonth_from (Some (AccessorObject a acc)) = Inr (Constructed v'))
   \<and> (\<not> (\<exists>y m v'. accessor_get acc YEAR = Inr (Some y)
                   \<and> accessor_get acc MONTH_OF_YEAR = Inr (Some m)
                   \<and> YearMonth_of y m = Inr v') \<longrightarrow>
      YearMonth_from (Some (AccessorObject a acc)) =
        Inl (DateTimeException_message
              (''Unable to obtain YearMonth from TemporalAccessor: '' @ accessor_toString acc @
               '', type '' @
               (case accessor_constructor_name acc of Some n \<Rightarrow> n | None \<Rightarrow> []))))"
proof (intro conjI impI)
  show "YearMonth_from (Some (YearMonthObject a v)) = Inr (Argument (YearMonthObject a v))"
    by (simp add: YearMonth_from_def guards)
next
  assume "accessor_get acc YEAR = Inr (Some y) \<and> accessor_get acc MONTH_OF_YEAR = Inr (Some m)
        \<and> YearMonth_of y m = Inr v'"
  then show "YearMonth_from (Some (AccessorObject a acc)) = Inr (Constructed v')"
    by (simp add: YearMonth_from_def guards YearMonth_of_def)
next
  assume none: "\<not> (\<exists>y m v'. accessor_get acc YEAR = Inr (Some y)
                   \<and> accessor_get acc MONTH_OF_YEAR = Inr (Some m)
                   \<and> YearMonth_of y m = Inr v')"
  have "andThen (accessor_get acc YEAR) (\<lambda>y.
          andThen (accessor_get acc MONTH_OF_YEAR) (\<lambda>m. ofYearMonthNumber y m)) \<noteq> Inr w" for w
  proof
    assume ok: "andThen (accessor_get acc YEAR) (\<lambda>y.
          andThen (accessor_get acc MONTH_OF_YEAR) (\<lambda>m. ofYearMonthNumber y m)) = Inr w"
    then obtain y0 m0 where g: "accessor_get acc YEAR = Inr y0"
        "accessor_get acc MONTH_OF_YEAR = Inr m0" "ofYearMonthNumber y0 m0 = Inr w"
      by (auto simp add: andThen_def split: sum.splits)
    from g(3) obtain y m where "y0 = Some y" "m0 = Some m"
      by (auto simp add: ofYearMonthNumber_def guards split: option.splits)
    with g none show False
      by (simp add: YearMonth_of_def)
  qed
  then show "YearMonth_from (Some (AccessorObject a acc)) =
        Inl (DateTimeException_message
              (''Unable to obtain YearMonth from TemporalAccessor: '' @ accessor_toString acc @
               '', type '' @
               (case accessor_constructor_name acc of Some n \<Rightarrow> n | None \<Rightarrow> [])))"
    by (simp add: YearMonth_from_def requireNonNull_def andThen_def [of "Inr _"] from_message_def
        split: sum.splits)
qed

theorem from_spec_witness:
  "YearMonth_from (Some (AccessorObject 0
      \<lparr>accessor_get = (\<lambda>f. case f of YEAR \<Rightarrow> Inr (Some 2007) | MONTH_OF_YEAR \<Rightarrow> Inr (Some 12)
                              | _ \<Rightarrow> Inl UnsupportedTemporalTypeException),
       accessor_toString = ''2007-12-03'', accessor_constructor_name = Some ''LocalDate''\<rparr>))
     = Inr (Constructed \<lparr>year = 2007, month = 12\<rparr>)
   \<and> YearMonth_from (Some (AccessorObject 0
      \<lparr>accessor_get = (\<lambda>f. Inl UnsupportedTemporalTypeException),
       accessor_toString = ''10:15'', accessor_constructor_name = Some ''LocalTime''\<rparr>))
     = Inl (DateTimeException_message
         ''Unable to obtain YearMonth from TemporalAccessor: 10:15, type LocalTime'')"
proof -
  have "YearMonth_from (Some (AccessorObject 0
      \<lparr>accessor_get = (\<lambda>f. case f of YEAR \<Rightarrow> Inr (Some 2007) | MONTH_OF_YEAR \<Rightarrow> Inr (Some 12)
                              | _ \<Rightarrow> Inl UnsupportedTemporalTypeException),
       accessor_toString = ''2007-12-03'', accessor_constructor_name = Some ''LocalDate''\<rparr>))
     = Inr (Constructed \<lparr>year = 2007, month = 12\<rparr>)"
    using from_spec [of 0 "\<lparr>year = 0, month = 1\<rparr>"
        "\<lparr>accessor_get = (\<lambda>f. case f of YEAR \<Rightarrow> Inr (Some 2007)
                              | MONTH_OF_YEAR \<Rightarrow> Inr (Some 12)
                              | _ \<Rightarrow> Inl UnsupportedTemporalTypeException),
          accessor_toString = ''2007-12-03'', accessor_constructor_name = Some ''LocalDate''\<rparr>"
        2007 12 "\<lparr>year = 2007, month = 12\<rparr>"]
    by (simp add: YearMonth_of_value MIN_YEAR_def MAX_YEAR_def)
  moreover have "YearMonth_from (Some (AccessorObject 0
      \<lparr>accessor_get = (\<lambda>f. Inl UnsupportedTemporalTypeException),
       accessor_toString = ''10:15'', accessor_constructor_name = Some ''LocalTime''\<rparr>))
     = Inl (DateTimeException_message
         ''Unable to obtain YearMonth from TemporalAccessor: 10:15, type LocalTime'')"
    using from_spec [of 0 "\<lparr>year = 0, month = 1\<rparr>"
        "\<lparr>accessor_get = (\<lambda>f. Inl UnsupportedTemporalTypeException),
          accessor_toString = ''10:15'', accessor_constructor_name = Some ''LocalTime''\<rparr>"
        0 0 "\<lparr>year = 0, month = 1\<rparr>"]
    by simp
  ultimately show ?thesis by blast
qed

text \<open>C10: \<open>equals(obj)\<close> never fails. It is false when \<open>obj\<close> is \<open>null\<close>, \<open>undefined\<close>, a
  primitive or an object that is not a YearMonth; true when \<open>obj\<close> is the identical instance;
  and on another YearMonth instance it is true exactly when year and month are both
  equal.\<close>

theorem equals_spec:
  "equals a this Null = False
   \<and> equals a this Undefined = False
   \<and> equals a this Primitive = False
   \<and> equals a this (Object (AccessorObject b acc)) = False
   \<and> equals a this (Object (YearMonthObject a other)) = True
   \<and> (a \<noteq> b \<longrightarrow>
        equals a this (Object (YearMonthObject b other)) =
          (year this = year other \<and> month this = month other))"
  by (simp add: equals_def identical_def monthValue_def)

theorem equals_spec_witness:
  "(0::nat) \<noteq> 1
   \<and> equals 0 \<lparr>year = 2007, month = 12\<rparr>
        (Object (YearMonthObject 1 \<lparr>year = 2007, month = 12\<rparr>)) = True
   \<and> equals 0 \<lparr>year = 2007, month = 12\<rparr>
        (Object (YearMonthObject 1 \<lparr>year = 2008, month = 12\<rparr>)) = False"
  using equals_spec [of 0 "\<lparr>year = 2007, month = 12\<rparr>" 1 undefined
      "\<lparr>year = 2007, month = 12\<rparr>"]
    equals_spec [of 0 "\<lparr>year = 2007, month = 12\<rparr>" 1 undefined
      "\<lparr>year = 2008, month = 12\<rparr>"]
  by simp

end
